theory Spec2Isabelle
  imports Complex_Main
begin

section \<open>Scalar values\<close>

text \<open>
  A JavaScript number is modelled by the exact value it denotes: a finite value (every
  double is a rational; the two zeros are one value, which no comparison tells apart), the
  two infinities, or NaN. Values of the arbitrary-precision BigNumber kind (decimal.js)
  are finite decimals, infinities or NaN and use the same type.
\<close>

datatype number = Finite rat | PosInf | NegInf | NaN

type_synonym BigNumber = number

type_synonym Fraction = rat

text \<open>
  The relational operators of ECMAScript on two numbers: \<open>x < y\<close> is false as soon as
  one operand is NaN, and \<open>x > y\<close> is evaluated as \<open>y < x\<close>.
\<close>

fun js_lt :: "number \<Rightarrow> number \<Rightarrow> bool" where
  "js_lt NaN y = False"
| "js_lt x NaN = False"
| "js_lt (Finite a) (Finite b) = (a < b)"
| "js_lt (Finite a) PosInf = True"
| "js_lt (Finite a) NegInf = False"
| "js_lt PosInf y = False"
| "js_lt NegInf NegInf = False"
| "js_lt NegInf y = True"

definition js_gt :: "number \<Rightarrow> number \<Rightarrow> bool" where
  "js_gt x y = js_lt y x"

text \<open>
  On two booleans \<open>x > y\<close> and \<open>x < y\<close> compare the operands converted to numbers
  (\<open>true\<close> is 1, \<open>false\<close> is 0).
\<close>

definition ToNumber :: "bool \<Rightarrow> number" where
  "ToNumber b = (if b then Finite 1 else Finite 0)"

text \<open>
  decimal.js: \<open>x.cmp(y)\<close> is NaN (here \<open>None\<close>) when an operand is NaN, and otherwise
  \<open>-1\<close>, \<open>0\<close> or \<open>1\<close>; \<open>x.gt(y)\<close> is \<open>x.cmp(y) > 0\<close> and \<open>x.lt(y)\<close> is
  \<open>x.cmp(y) < 0\<close>.
\<close>

fun cmp :: "BigNumber \<Rightarrow> BigNumber \<Rightarrow> int option" where
  "cmp NaN y = None"
| "cmp x NaN = None"
| "cmp (Finite a) (Finite b) = Some (if a < b then - 1 else if a = b then 0 else 1)"
| "cmp (Finite a) PosInf = Some (- 1)"
| "cmp (Finite a) NegInf = Some 1"
| "cmp PosInf PosInf = Some 0"
| "cmp PosInf y = Some 1"
| "cmp NegInf NegInf = Some 0"
| "cmp NegInf y = Some (- 1)"

definition gt :: "BigNumber \<Rightarrow> BigNumber \<Rightarrow> bool" where
  "gt x y = (case cmp x y of None \<Rightarrow> False | Some c \<Rightarrow> 0 < c)"

definition lt :: "BigNumber \<Rightarrow> BigNumber \<Rightarrow> bool" where
  "lt x y = (case cmp x y of None \<Rightarrow> False | Some c \<Rightarrow> c < 0)"

text \<open>fraction.js: \<open>x.compare(y)\<close> is \<open>-1\<close>, \<open>0\<close> or \<open>1\<close>, the sign of \<open>x - y\<close>.\<close>

definition compare :: "Fraction \<Rightarrow> Fraction \<Rightarrow> int" where
  "compare x y = (if x < y then - 1 else if x = y then 0 else 1)"

section \<open>The scalar rules of larger and smaller\<close>

text \<open>
  The rules \<open>'boolean, boolean'\<close>, \<open>'number, number'\<close>, \<open>'BigNumber, BigNumber'\<close> and
  \<open>'Fraction, Fraction'\<close> of \<open>larger.js\<close> and of \<open>smaller.js\<close>. The near-equality
  tests \<open>nearlyEqual\<close> (utils/number) and \<open>bigNearlyEqual\<close> (utils/bignumber) are
  imported by both files and are not among the sources: the rules take them as the
  parameters \<open>ne\<close> and \<open>bne\<close>, and \<open>config().epsilon\<close> as the parameter \<open>epsilon\<close>.
\<close>

definition larger_boolean :: "bool \<Rightarrow> bool \<Rightarrow> bool" where
  "larger_boolean x y = js_gt (ToNumber x) (ToNumber y)"

definition larger_number ::
  "(number \<Rightarrow> number \<Rightarrow> number \<Rightarrow> bool) \<Rightarrow> number \<Rightarrow> number \<Rightarrow> number \<Rightarrow> bool" where
  "larger_number ne epsilon x y = (js_gt x y \<and> \<not> ne x y epsilon)"

definition larger_BigNumber ::
  "(BigNumber \<Rightarrow> BigNumber \<Rightarrow> number \<Rightarrow> bool) \<Rightarrow> number \<Rightarrow> BigNumber \<Rightarrow> BigNumber \<Rightarrow> bool" where
  "larger_BigNumber bne epsilon x y = (gt x y \<and> \<not> bne x y epsilon)"

definition larger_Fraction :: "Fraction \<Rightarrow> Fraction \<Rightarrow> bool" where
  "larger_Fraction x y = (compare x y = 1)"

definition smaller_boolean :: "bool \<Rightarrow> bool \<Rightarrow> bool" where
  "smaller_boolean x y = js_lt (ToNumber x) (ToNumber y)"

definition smaller_number ::
  "(number \<Rightarrow> number \<Rightarrow> number \<Rightarrow> bool) \<Rightarrow> number \<Rightarrow> number \<Rightarrow> number \<Rightarrow> bool" where
  "smaller_number ne epsilon x y = (js_lt x y \<and> \<not> ne x y epsilon)"

definition smaller_BigNumber ::
  "(BigNumber \<Rightarrow> BigNumber \<Rightarrow> number \<Rightarrow> bool) \<Rightarrow> number \<Rightarrow> BigNumber \<Rightarrow> BigNumber \<Rightarrow> bool" where
  "smaller_BigNumber bne epsilon x y = (lt x y \<and> \<not> bne x y epsilon)"

definition smaller_Fraction :: "Fraction \<Rightarrow> Fraction \<Rightarrow> bool" where
  "smaller_Fraction x y = (compare x y = - 1)"

text \<open>
  Modelled from the spec: \<open>nearlyEqual\<close> of utils/number is missing from the sources. The
  spec speaks of two numbers being nearly equal within epsilon, and the documentation of
  \<open>larger\<close> of the relative difference between x and y measured against the configured
  epsilon. This instance is used where a closed term is needed; the general results
  hold for every near-equality test.
\<close>

definition nearlyEqual :: "number \<Rightarrow> number \<Rightarrow> number \<Rightarrow> bool" where
  "nearlyEqual x y epsilon =
     (case (x, y, epsilon) of
        (Finite a, Finite b, Finite e) \<Rightarrow> \<bar>a - b\<bar> \<le> max \<bar>a\<bar> \<bar>b\<bar> * e
      | _ \<Rightarrow> x = y \<and> x \<noteq> NaN)"

text \<open>The epsilon the scenarios of the spec fix: \<open>1e-9\<close>.\<close>

definition epsilon_1e9 :: number where
  "epsilon_1e9 = Finite (1 / 1000000000)"

section \<open>Matrices\<close>

text \<open>
  Modelled from the spec: the matrix types \<open>DenseMatrix\<close> and \<open>SparseMatrix\<close> are missing
  from the sources. The data of a dense matrix is a nested sequence that matches its
  shape; a sparse matrix stores its explicit entries column by column (\<open>values\<close>,
  \<open>rowIndex\<close>, \<open>columnPointer\<close>) and has the shape \<open>[rows, columns]\<close>. The optional
  datatype tag only selects fast paths and is left out.
\<close>

datatype 'a nested = Leaf 'a | Arr "'a nested list"

record 'a DenseMatrix =
  d_shape :: "nat list"
  d_data :: "'a nested"

record 'a SparseMatrix =
  s_rows :: nat
  s_columns :: nat
  s_values :: "'a list"
  s_rowIndex :: "nat list"
  s_columnPointer :: "nat list"

text \<open>
  Modelled from the spec: the invariant of a dense matrix, and what makes a plain nested
  array have a shape. The nesting depth and the length at each level match the shape.
\<close>

fun conforms :: "nat list \<Rightarrow> 'a nested \<Rightarrow> bool"
  and conforms_list :: "nat list \<Rightarrow> 'a nested list \<Rightarrow> bool" where
  "conforms ns (Leaf v) = (ns = [])"
| "conforms ns (Arr xs) =
     (case ns of [] \<Rightarrow> False | n # ns' \<Rightarrow> length xs = n \<and> conforms_list ns' xs)"
| "conforms_list ns [] = True"
| "conforms_list ns (x # xs) = (conforms ns x \<and> conforms_list ns xs)"

definition s_shape :: "'a SparseMatrix \<Rightarrow> nat list" where
  "s_shape S = [s_rows S, s_columns S]"

text \<open>
  An operand of \<open>larger\<close> or \<open>smaller\<close>: a scalar, a matrix in one of the two storage
  formats, or a plain nested array. The scalars and the matrix elements of one call are
  of one kind \<open>'a\<close>, on which the operator's scalar rule is total.
\<close>

datatype 'a operand =
  Scalar 'a
| Dense "'a DenseMatrix"
| Sparse "'a SparseMatrix"
| Array "'a nested"

text \<open>The two kinds of error of the combinators and the dispatch, with what they report.\<close>

datatype error =
  DimensionMismatch "nat list" "nat list"
| TypeMismatch string string string

subsection \<open>Reading a sparse matrix\<close>

text \<open>
  Modelled from the spec: the explicit entries of column \<open>j\<close>, as pairs of row and value,
  are the positions \<open>columnPointer[j] .. columnPointer[j+1] - 1\<close> of \<open>rowIndex\<close> and
  \<open>values\<close>. A column without its two pointers has no entry.
\<close>

definition column :: "'a SparseMatrix \<Rightarrow> nat \<Rightarrow> (nat \<times> 'a) list" where
  "column S j =
     (if Suc j < length (s_columnPointer S) then
        (let k0 = s_columnPointer S ! j; k1 = s_columnPointer S ! Suc j in
           zip (take (k1 - k0) (drop k0 (s_rowIndex S)))
               (take (k1 - k0) (drop k0 (s_values S))))
      else [])"

text \<open>
  Modelled from the spec: the value at a coordinate is the explicit entry, or the canonical
  zero when the entry is absent.
\<close>

definition entry :: "'a \<Rightarrow> 'a SparseMatrix \<Rightarrow> nat \<Rightarrow> nat \<Rightarrow> 'a" where
  "entry zero S i j = (case map_of (column S j) i of None \<Rightarrow> zero | Some v \<Rightarrow> v)"

text \<open>
  Modelled from the spec: the invariants of a sparse matrix, for the canonical zero of its
  element kind. The sequences have the lengths the shape asks for, the column pointer
  starts at 0, ends at the number of values and never decreases, the rows of each column
  are strictly increasing and within the shape, and no stored value is the canonical zero.
\<close>

definition well_formed :: "'a \<Rightarrow> 'a SparseMatrix \<Rightarrow> bool" where
  "well_formed zero S =
     (length (s_rowIndex S) = length (s_values S)
      \<and> length (s_columnPointer S) = s_columns S + 1
      \<and> s_columnPointer S ! 0 = 0
      \<and> s_columnPointer S ! s_columns S = length (s_values S)
      \<and> sorted (s_columnPointer S)
      \<and> list_all (\<lambda>j. sorted_wrt (<) (map fst (column S j))) [0..<s_columns S]
      \<and> list_all (\<lambda>i. i < s_rows S) (s_rowIndex S)
      \<and> zero \<notin> set (s_values S))"

text \<open>
  Modelled from the spec: \<open>toDense\<close> of the storage collaborators is missing from the
  sources. It is exact and preserves the shape: every coordinate holds the explicit entry
  of the sparse matrix, or the canonical zero.
\<close>

definition toDense :: "'a \<Rightarrow> 'a SparseMatrix \<Rightarrow> 'a DenseMatrix" where
  "toDense zero S =
     \<lparr>d_shape = s_shape S,
      d_data = Arr (map (\<lambda>i. Arr (map (\<lambda>j. Leaf (entry zero S i j)) [0..<s_columns S]))
                        [0..<s_rows S])\<rparr>"

text \<open>
  Modelled from the spec: \<open>matrix\<close> (the conversion \<open>fromNestedSequence\<close>) is missing from
  the sources. It turns a plain nested array into a dense matrix with the same data; the
  shape of the array is read along its first elements.
\<close>

fun arraySize :: "'a nested \<Rightarrow> nat list" where
  "arraySize (Leaf v) = []"
| "arraySize (Arr []) = [0]"
| "arraySize (Arr (x # xs)) = Suc (length xs) # arraySize x"

text \<open>
  Modelled from the spec: \<open>matrix\<close> on a plain nested array gives the dense matrix of that
  array.
\<close>

definition matrix :: "'a nested \<Rightarrow> 'a DenseMatrix" where
  "matrix x = \<lparr>d_shape = arraySize x, d_data = x\<rparr>"

text \<open>
  Modelled from the spec: \<open>valueOf\<close> (the conversion \<open>toNestedSequence\<close>) is missing from
  the sources. It gives the data of a matrix as a plain nested array; every other value
  is its own value.
\<close>

fun valueOf :: "'a \<Rightarrow> 'a operand \<Rightarrow> 'a operand" where
  "valueOf zero (Dense d) = Array (d_data d)"
| "valueOf zero (Sparse s) = Array (d_data (toDense zero s))"
| "valueOf zero v = v"

section \<open>The element-wise combinators\<close>

text \<open>
  The combinators \<open>algorithm13\<close>, \<open>algorithm14\<close>, \<open>algorithm03\<close>, \<open>algorithm07\<close> and
  \<open>algorithm12\<close> (type/matrix/utils) are imported by both files and are missing from the
  sources. Each definition below follows the description of its combinator in the spec.
  The operator \<open>callback\<close> is a total function of two scalars; the canonical zero of the
  element kind (\<open>zero\<close>) and of the result kind (\<open>rzero\<close>) are parameters.
\<close>

subsection \<open>Dense by dense, dense by scalar\<close>

text \<open>
  Modelled from the spec: the walk of \<open>algorithm13\<close> over two nested sequences. Each
  coordinate of the result holds \<open>callback (a[coord]) (b[coord])\<close>. Two operands that
  match one shape have the same nesting; where the nesting differs nothing is combined.
\<close>

fun elementwise :: "('a \<Rightarrow> 'a \<Rightarrow> 'b) \<Rightarrow> 'a nested \<Rightarrow> 'a nested \<Rightarrow> 'b nested"
  and elementwise_list :: "('a \<Rightarrow> 'a \<Rightarrow> 'b) \<Rightarrow> 'a nested list \<Rightarrow> 'a nested list \<Rightarrow> 'b nested list" where
  "elementwise f (Leaf a) (Leaf b) = Leaf (f a b)"
| "elementwise f (Arr xs) (Arr ys) = Arr (elementwise_list f xs ys)"
| "elementwise f (Leaf a) (Arr ys) = Arr []"
| "elementwise f (Arr xs) (Leaf b) = Arr []"
| "elementwise_list f (x # xs) (y # ys) = elementwise f x y # elementwise_list f xs ys"
| "elementwise_list f [] ys = []"
| "elementwise_list f xs [] = []"

text \<open>
  Modelled from the spec: \<open>algorithm13\<close>, the dense-by-dense combinator, is missing from the
  sources. It fails with a DimensionMismatch when the shapes differ (a different rank
  included) and otherwise builds a dense matrix of the same shape.
\<close>

definition algorithm13 ::
  "'a DenseMatrix \<Rightarrow> 'a DenseMatrix \<Rightarrow> ('a \<Rightarrow> 'a \<Rightarrow> 'b) \<Rightarrow> error + 'b DenseMatrix" where
  "algorithm13 a b callback =
     (if d_shape a \<noteq> d_shape b then Inl (DimensionMismatch (d_shape a) (d_shape b))
      else Inr \<lparr>d_shape = d_shape a, d_data = elementwise callback (d_data a) (d_data b)\<rparr>)"

text \<open>
  Modelled from the spec: \<open>algorithm14\<close>, the dense-by-scalar combinator, is missing from
  the sources. It applies the operator to every cell and the scalar; the flag \<open>inverse\<close>
  says that the scalar is the left operand of the operator.
\<close>

definition algorithm14 ::
  "'a DenseMatrix \<Rightarrow> 'a \<Rightarrow> ('a \<Rightarrow> 'a \<Rightarrow> 'b) \<Rightarrow> bool \<Rightarrow> 'b DenseMatrix" where
  "algorithm14 a b callback inverse' =
     \<lparr>d_shape = d_shape a,
      d_data = map_nested (\<lambda>v. if inverse' then callback b v else callback v b) (d_data a)\<rparr>"

subsection \<open>Sparse by sparse\<close>

text \<open>
  Modelled from the spec: the merge-join of \<open>algorithm07\<close> over the sorted runs of one
  column. A row present in both operands gets \<open>callback a b\<close>, a row present in one of
  them \<open>callback a zero\<close> or \<open>callback zero b\<close>; a row absent from both is never visited.
\<close>

fun merge_join ::
  "('a \<Rightarrow> 'a \<Rightarrow> 'b) \<Rightarrow> 'a \<Rightarrow> (nat \<times> 'a) list \<Rightarrow> (nat \<times> 'a) list \<Rightarrow> (nat \<times> 'b) list" where
  "merge_join f zero [] [] = []"
| "merge_join f zero ((i, a) # as) [] = (i, f a zero) # merge_join f zero as []"
| "merge_join f zero [] ((k, b) # bs) = (k, f zero b) # merge_join f zero [] bs"
| "merge_join f zero ((i, a) # as) ((k, b) # bs) =
     (if i = k then (i, f a b) # merge_join f zero as bs
      else if i < k then (i, f a zero) # merge_join f zero as ((k, b) # bs)
      else (k, f zero b) # merge_join f zero ((i, a) # as) bs)"

text \<open>
  Modelled from the spec: results equal to the canonical zero of the result kind are
  dropped from a sparse output, not stored.
\<close>

definition drop_zeros :: "'b \<Rightarrow> (nat \<times> 'b) list \<Rightarrow> (nat \<times> 'b) list" where
  "drop_zeros rzero es = filter (\<lambda>(i, v). v \<noteq> rzero) es"

text \<open>
  Modelled from the spec: the freshly built sequences of a sparse result. The entries of
  the columns follow one another, and the pointer of each column is the number of entries
  before it.
\<close>

fun pointers :: "nat \<Rightarrow> 'x list list \<Rightarrow> nat list" where
  "pointers n [] = [n]"
| "pointers n (c # cs) = n # pointers (n + length c) cs"

text \<open>
  Modelled from the spec: a new sparse matrix of the given shape from the entries of its
  columns.
\<close>

definition assemble :: "nat \<Rightarrow> nat \<Rightarrow> (nat \<times> 'b) list list \<Rightarrow> 'b SparseMatrix" where
  "assemble r c cols =
     \<lparr>s_rows = r, s_columns = c,
      s_values = concat (map (map snd) cols),
      s_rowIndex = concat (map (map fst) cols),
      s_columnPointer = pointers 0 cols\<rparr>"

text \<open>
  Modelled from the spec: \<open>algorithm07\<close>, the sparse-by-sparse combinator, is missing from
  the sources. It fails with a DimensionMismatch when the shapes differ and otherwise
  builds a new sparse matrix, column by column, from the merge-join without its zeros.
\<close>

definition algorithm07 ::
  "'a \<Rightarrow> 'b \<Rightarrow> 'a SparseMatrix \<Rightarrow> 'a SparseMatrix \<Rightarrow> ('a \<Rightarrow> 'a \<Rightarrow> 'b) \<Rightarrow> error + 'b SparseMatrix" where
  "algorithm07 zero rzero a b callback =
     (if s_shape a \<noteq> s_shape b then Inl (DimensionMismatch (s_shape a) (s_shape b))
      else Inr (assemble (s_rows a) (s_columns a)
             (map (\<lambda>j. drop_zeros rzero (merge_join callback zero (column a j) (column b j)))
                  [0..<s_columns a])))"

subsection \<open>Dense by sparse\<close>

text \<open>
  Modelled from the spec: the walk of \<open>algorithm03\<close> over the dense operand. Every
  coordinate is visited, with the path that leads to it; the sparse operand has an
  explicit value at a coordinate \<open>[i, j]\<close> or counts as zero.
\<close>

fun visit :: "(nat list \<Rightarrow> 'a \<Rightarrow> 'b) \<Rightarrow> nat list \<Rightarrow> 'a nested \<Rightarrow> 'b nested"
  and visit_list :: "(nat list \<Rightarrow> 'a \<Rightarrow> 'b) \<Rightarrow> nat list \<Rightarrow> nat \<Rightarrow> 'a nested list \<Rightarrow> 'b nested list" where
  "visit g p (Leaf v) = Leaf (g p v)"
| "visit g p (Arr xs) = Arr (visit_list g p 0 xs)"
| "visit_list g p k [] = []"
| "visit_list g p k (x # xs) = visit g (p @ [k]) x # visit_list g p (Suc k) xs"

text \<open>
  Modelled from the spec: the lookup of \<open>algorithm03\<close> in the sparse operand. Only a
  coordinate of rank 2 can hold an explicit entry.
\<close>

definition sparse_at :: "'a \<Rightarrow> 'a SparseMatrix \<Rightarrow> nat list \<Rightarrow> 'a" where
  "sparse_at zero s p = (case p of [i, j] \<Rightarrow> entry zero s i j | _ \<Rightarrow> zero)"

text \<open>
  Modelled from the spec: \<open>algorithm03\<close>, the combinator of a dense and a sparse matrix, is
  missing from the sources. It fails with a DimensionMismatch when the shapes differ and
  otherwise builds a dense matrix; with \<open>inverse\<close> the sparse value is the left operand of
  the operator.
\<close>

definition algorithm03 ::
  "'a \<Rightarrow> 'a DenseMatrix \<Rightarrow> 'a SparseMatrix \<Rightarrow> ('a \<Rightarrow> 'a \<Rightarrow> 'b) \<Rightarrow> bool \<Rightarrow> error + 'b DenseMatrix" where
  "algorithm03 zero d s callback inverse' =
     (if d_shape d \<noteq> s_shape s then Inl (DimensionMismatch (d_shape d) (s_shape s))
      else Inr \<lparr>d_shape = d_shape d,
                d_data = visit (\<lambda>p v. if inverse' then callback (sparse_at zero s p) v
                                      else callback v (sparse_at zero s p)) [] (d_data d)\<rparr>)"

subsection \<open>Sparse by scalar\<close>

text \<open>
  Modelled from the spec: \<open>algorithm12\<close>, the sparse-by-scalar combinator, is missing from
  the sources. \<open>testValue\<close> is the operator on the canonical zero and the scalar, in the
  order of the flag. When it is the canonical zero of the result kind the result stays
  sparse: only the explicit values are recomputed and zero results are dropped. Otherwise
  the result is a dense matrix of the same shape, \<open>testValue\<close> everywhere but at the
  explicit entries.
\<close>

definition algorithm12 ::
  "'a \<Rightarrow> 'b \<Rightarrow> 'a SparseMatrix \<Rightarrow> 'a \<Rightarrow> ('a \<Rightarrow> 'a \<Rightarrow> 'b) \<Rightarrow> bool \<Rightarrow> 'b operand" where
  "algorithm12 zero rzero s b callback inverse' =
     (let cf = (\<lambda>v. if inverse' then callback b v else callback v b);
          testValue = cf zero
      in if testValue = rzero then
           Sparse (assemble (s_rows s) (s_columns s)
             (map (\<lambda>j. drop_zeros rzero (map (\<lambda>(i, v). (i, cf v)) (column s j)))
                  [0..<s_columns s]))
         else
           Dense \<lparr>d_shape = s_shape s,
             d_data = Arr (map (\<lambda>i. Arr (map (\<lambda>j. Leaf
                 (case map_of (column s j) i of None \<Rightarrow> testValue | Some v \<Rightarrow> cf v))
               [0..<s_columns s])) [0..<s_rows s])\<rparr>)"

section \<open>The signatures of larger and smaller\<close>

text \<open>
  The matrix and array signatures are the same in \<open>larger.js\<close> and \<open>smaller.js\<close>; each
  passes the operator itself to the combinators as the callback, which on two scalars of
  the element kind is the operator's scalar rule \<open>f\<close>. A signature with the \<open>Matrix\<close> or
  \<open>Array\<close> kind in both positions is selected before one with \<open>any\<close>, so \<open>any\<close> stands for
  a scalar. \<open>matrix\<close> turns an array into a dense matrix.
\<close>

function (sequential) signatures ::
  "('a \<Rightarrow> 'a \<Rightarrow> 'b) \<Rightarrow> 'a \<Rightarrow> 'b \<Rightarrow> 'a operand \<Rightarrow> 'a operand \<Rightarrow> error + 'b operand" where
  "signatures f zero rzero (Scalar x) (Scalar y) = Inr (Scalar (f x y))"
| "signatures f zero rzero (Sparse x) (Sparse y) =
     map_sum id Sparse (algorithm07 zero rzero x y f)"
| "signatures f zero rzero (Sparse x) (Dense y) =
     map_sum id Dense (algorithm03 zero y x f True)"
| "signatures f zero rzero (Dense x) (Sparse y) =
     map_sum id Dense (algorithm03 zero x y f False)"
| "signatures f zero rzero (Dense x) (Dense y) =
     map_sum id Dense (algorithm13 x y f)"
| "signatures f zero rzero (Array x) (Array y) =
     map_sum id (valueOf rzero) (signatures f zero rzero (Dense (matrix x)) (Dense (matrix y)))"
| "signatures f zero rzero (Array x) (Dense y) =
     signatures f zero rzero (Dense (matrix x)) (Dense y)"
| "signatures f zero rzero (Array x) (Sparse y) =
     signatures f zero rzero (Dense (matrix x)) (Sparse y)"
| "signatures f zero rzero (Dense x) (Array y) =
     signatures f zero rzero (Dense x) (Dense (matrix y))"
| "signatures f zero rzero (Sparse x) (Array y) =
     signatures f zero rzero (Sparse x) (Dense (matrix y))"
| "signatures f zero rzero (Sparse x) (Scalar y) =
     Inr (algorithm12 zero rzero x y f False)"
| "signatures f zero rzero (Dense x) (Scalar y) =
     Inr (Dense (algorithm14 x y f False))"
| "signatures f zero rzero (Scalar x) (Sparse y) =
     Inr (algorithm12 zero rzero y x f True)"
| "signatures f zero rzero (Scalar x) (Dense y) =
     Inr (Dense (algorithm14 y x f True))"
| "signatures f zero rzero (Array x) (Scalar y) =
     Inr (valueOf rzero (Dense (algorithm14 (matrix x) y f False)))"
| "signatures f zero rzero (Scalar x) (Array y) =
     Inr (valueOf rzero (Dense (algorithm14 (matrix y) x f True)))"
  by pat_completeness auto
termination
  by (relation "measure (\<lambda>(f, zero, rzero, x, y).
        (case x of Array _ \<Rightarrow> 1 | _ \<Rightarrow> 0) + (case y of Array _ \<Rightarrow> 1 | _ \<Rightarrow> (0::nat)))") auto

text \<open>
  \<open>larger\<close> and \<open>smaller\<close> on operands of the number kind: the scalar rule is the
  \<open>'number, number'\<close> rule, the canonical zero of the elements is the number 0, and the
  canonical zero of the boolean results is \<open>false\<close>.
\<close>

definition larger ::
  "(number \<Rightarrow> number \<Rightarrow> number \<Rightarrow> bool) \<Rightarrow> number \<Rightarrow> number operand \<Rightarrow> number operand
     \<Rightarrow> error + bool operand" where
  "larger ne epsilon x y = signatures (larger_number ne epsilon) (Finite 0) False x y"

definition smaller ::
  "(number \<Rightarrow> number \<Rightarrow> number \<Rightarrow> bool) \<Rightarrow> number \<Rightarrow> number operand \<Rightarrow> number operand
     \<Rightarrow> error + bool operand" where
  "smaller ne epsilon x y = signatures (smaller_number ne epsilon) (Finite 0) False x y"

section \<open>Observations and examples\<close>

text \<open>The number of explicitly stored entries of a sparse matrix.\<close>

definition nnz :: "'a SparseMatrix \<Rightarrow> nat" where
  "nnz S = length (s_values S)"

text \<open>An outcome that is a DimensionMismatch error.\<close>

definition raises_DimensionMismatch :: "error + 'a \<Rightarrow> bool" where
  "raises_DimensionMismatch r = (case r of Inl (DimensionMismatch p q) \<Rightarrow> True | _ \<Rightarrow> False)"

text \<open>
  Sparse matrices of shape 2 by 2: \<open>example_S\<close> holds 5 at row 1, column 1 (the matrix of
  the spec's scenarios), \<open>example_T\<close> holds -3 and 4 in column 0. \<open>example_W\<close> is a
  3 by 3 matrix holding 7 at row 0, column 2.
\<close>

definition example_S :: "number SparseMatrix" where
  "example_S = \<lparr>s_rows = 2, s_columns = 2, s_values = [Finite 5], s_rowIndex = [1],
                 s_columnPointer = [0, 0, 1]\<rparr>"

definition example_T :: "number SparseMatrix" where
  "example_T = \<lparr>s_rows = 2, s_columns = 2, s_values = [Finite (- 3), Finite 4],
                 s_rowIndex = [0, 1], s_columnPointer = [0, 2, 2]\<rparr>"

definition example_W :: "number SparseMatrix" where
  "example_W = \<lparr>s_rows = 3, s_columns = 3, s_values = [Finite 7], s_rowIndex = [0],
                 s_columnPointer = [0, 0, 0, 1]\<rparr>"

text \<open>The dense matrix of rank 1 that holds the given values.\<close>

definition vector :: "'a list \<Rightarrow> 'a DenseMatrix" where
  "vector vs = \<lparr>d_shape = [length vs], d_data = Arr (map Leaf vs)\<rparr>"

section \<open>Results\<close>

subsection \<open>The scalar rules\<close>

lemma cmp_swap: "cmp y x = map_option uminus (cmp x y)"
  by (cases x; cases y) auto

lemma gt_lt_swap: "lt x y = gt y x"
  by (simp add: lt_def gt_def cmp_swap [of y x] split: option.splits)

lemma nearlyEqual_sym: "nearlyEqual x y e = nearlyEqual y x e"
  by (cases x; cases y; cases e) (auto simp: nearlyEqual_def abs_minus_commute max.commute)

text \<open>
  C4. On two numbers \<open>larger\<close> is true exactly when x is strictly greater than y (the
  comparison of ECMAScript, false on NaN) and the near-equality test with the configured
  epsilon does not hold; on two finite values the comparison is the order of their values.
\<close>

theorem larger_number_spec:
  "larger ne epsilon (Scalar x) (Scalar y) = Inr (Scalar (js_gt x y \<and> \<not> ne x y epsilon))
   \<and> larger_number ne epsilon x y = (js_gt x y \<and> \<not> ne x y epsilon)
   \<and> larger_number ne epsilon (Finite a) (Finite b)
       = (b < a \<and> \<not> ne (Finite a) (Finite b) epsilon)
   \<and> larger_number ne epsilon NaN y = False
   \<and> larger_number ne epsilon x NaN = False"
  by (cases x; cases y) (simp_all add: larger_def larger_number_def js_gt_def)

text \<open>
  The mirror needs the symmetry: where x is smaller than y, the two results agree only if
  the near-equality test gives the same answer for \<open>(x, y)\<close> and \<open>(y, x)\<close>.
\<close>

lemma symmetry_needed:
  assumes "js_lt x y"
    and "smaller_number ne epsilon x y = larger_number ne epsilon y x"
  shows "ne x y epsilon = ne y x epsilon"
  using assms by (auto simp: smaller_number_def larger_number_def js_gt_def)

text \<open>
  C10. For operands of one scalar kind among boolean, number, BigNumber and Fraction,
  \<open>smaller x y\<close> is \<open>larger y x\<close>, provided the near-equality tests of the number and
  BigNumber rules give the same answer for the two operands in either order.
\<close>

theorem smaller_is_larger_swapped:
  assumes "ne x y epsilon = ne y x epsilon"
    and "bne u v epsilon = bne v u epsilon"
  shows "smaller_boolean p q = larger_boolean q p
       \<and> smaller_number ne epsilon x y = larger_number ne epsilon y x
       \<and> smaller_BigNumber bne epsilon u v = larger_BigNumber bne epsilon v u
       \<and> smaller_Fraction f g = larger_Fraction g f
       \<and> smaller ne epsilon (Scalar x) (Scalar y) = larger ne epsilon (Scalar y) (Scalar x)"
proof -
  have b: "smaller_boolean p q = larger_boolean q p"
    by (simp add: smaller_boolean_def larger_boolean_def js_gt_def)
  have n: "smaller_number ne epsilon x y = larger_number ne epsilon y x"
    using assms(1) by (simp add: smaller_number_def larger_number_def js_gt_def)
  have g: "smaller_BigNumber bne epsilon u v = larger_BigNumber bne epsilon v u"
    using assms(2) by (simp add: smaller_BigNumber_def larger_BigNumber_def gt_lt_swap)
  have r: "smaller_Fraction f g = larger_Fraction g f"
    by (auto simp: smaller_Fraction_def larger_Fraction_def compare_def)
  have "smaller ne epsilon (Scalar x) (Scalar y) = larger ne epsilon (Scalar y) (Scalar x)"
    using n by (simp add: smaller_def larger_def)
  with b n g r show ?thesis by simp
qed

theorem smaller_is_larger_swapped_witness:
  "nearlyEqual (Finite 2) (Finite 3) epsilon_1e9 = nearlyEqual (Finite 3) (Finite 2) epsilon_1e9
   \<and> nearlyEqual (Finite 2) PosInf epsilon_1e9 = nearlyEqual PosInf (Finite 2) epsilon_1e9
   \<and> smaller_boolean False True = larger_boolean True False
   \<and> smaller_number nearlyEqual epsilon_1e9 (Finite 2) (Finite 3)
       = larger_number nearlyEqual epsilon_1e9 (Finite 3) (Finite 2)
   \<and> smaller_BigNumber nearlyEqual epsilon_1e9 (Finite 2) PosInf
       = larger_BigNumber nearlyEqual epsilon_1e9 PosInf (Finite 2)
   \<and> smaller_Fraction (1 / 3) (1 / 2) = larger_Fraction (1 / 2) (1 / 3)
   \<and> smaller nearlyEqual epsilon_1e9 (Scalar (Finite 2)) (Scalar (Finite 3))
       = larger nearlyEqual epsilon_1e9 (Scalar (Finite 3)) (Scalar (Finite 2))
   \<and> larger_number nearlyEqual epsilon_1e9 (Finite 3) (Finite 2)"
proof -
  have s: "nearlyEqual (Finite 2) (Finite 3) epsilon_1e9
           = nearlyEqual (Finite 3) (Finite 2) epsilon_1e9"
    by (rule nearlyEqual_sym)
  have t: "nearlyEqual (Finite 2) PosInf epsilon_1e9 = nearlyEqual PosInf (Finite 2) epsilon_1e9"
    by (rule nearlyEqual_sym)
  have l: "larger_number nearlyEqual epsilon_1e9 (Finite 3) (Finite 2)"
    by (simp add: larger_number_def js_gt_def nearlyEqual_def epsilon_1e9_def)
  show ?thesis
    using s t l
      smaller_is_larger_swapped [where ne = nearlyEqual and bne = nearlyEqual
        and epsilon = epsilon_1e9 and p = False and q = True and x = "Finite 2"
        and y = "Finite 3" and u = "Finite 2" and v = PosInf and f = "1 / 3" and g = "1 / 2",
        OF s t]
    by simp
qed

subsection \<open>The structure of a sparse result\<close>

lemma pointers_length: "length (pointers n cs) = Suc (length cs)"
  by (induction cs arbitrary: n) auto

lemma pointers_nth: "j \<le> length cs \<Longrightarrow> pointers n cs ! j = n + length (concat (take j cs))"
proof (induction cs arbitrary: n j)
  case Nil
  then show ?case by simp
next
  case (Cons c cs)
  then show ?case by (cases j) auto
qed

lemma length_concat_map_map: "length (concat (map (map g) cs)) = length (concat cs)"
  by (induction cs) auto

lemma slice_concat:
  assumes "j < length cs"
  shows "take (length (cs ! j)) (drop (length (concat (take j cs))) (concat (map (map g) cs)))
         = map g (cs ! j)"
proof -
  have "cs = take j cs @ cs ! j # drop (Suc j) cs"
    using assms by (simp add: id_take_nth_drop)
  then have "concat (map (map g) cs)
      = concat (map (map g) (take j cs)) @ map g (cs ! j) @ concat (map (map g) (drop (Suc j) cs))"
    by (metis concat.simps(2) concat_append list.simps(9) map_append)
  then show ?thesis
    by (simp add: length_concat_map_map)
qed

lemma column_assemble:
  assumes "j < length cs"
  shows "column (assemble r c cs) j = cs ! j"
proof -
  have k0: "pointers 0 cs ! j = length (concat (take j cs))"
    using assms by (simp add: pointers_nth)
  have k1: "pointers 0 cs ! Suc j = length (concat (take j cs)) + length (cs ! j)"
    using assms by (simp add: pointers_nth take_Suc_conv_app_nth)
  show ?thesis
    using assms
    by (simp add: column_def assemble_def pointers_length k0 k1 slice_concat zip_map_fst_snd)
qed

lemma fst_merge_join:
  "fst ` set (merge_join f z as bs) = fst ` set as \<union> fst ` set bs"
  by (induction f z as bs rule: merge_join.induct) auto

lemma sorted_merge_join:
  "sorted_wrt (<) (map fst as) \<Longrightarrow> sorted_wrt (<) (map fst bs)
   \<Longrightarrow> sorted_wrt (<) (map fst (merge_join f z as bs))"
proof (induction f z as bs rule: merge_join.induct)
  case (4 f zero i a as k b bs)
  then show ?case
    using fst_merge_join [of f zero] by (fastforce)
qed (auto simp: fst_merge_join)




lemma assemble_fields:
  "s_rows (assemble r c cols) = r" "s_columns (assemble r c cols) = c"
  "length (s_columnPointer (assemble r c cols)) = Suc (length cols)"
  "length (s_rowIndex (assemble r c cols)) = length (s_values (assemble r c cols))"
  by (simp_all add: assemble_def pointers_length length_concat_map_map)

lemma well_formed_sorted:
  "well_formed zero S \<Longrightarrow> j < s_columns S \<Longrightarrow> sorted_wrt (<) (map fst (column S j))"
  by (simp add: well_formed_def list_all_iff)

lemma pointers_ge: "x \<in> set (pointers m cs) \<Longrightarrow> m \<le> x"
  by (induction cs arbitrary: m) fastforce+

lemma sorted_pointers: "sorted (pointers n cs)"
  by (induction cs arbitrary: n) (auto dest: pointers_ge)

lemma well_formed_assemble:
  assumes "length cols = c"
    and "\<And>col. col \<in> set cols \<Longrightarrow> sorted_wrt (<) (map fst col)"
    and "\<And>col i v. col \<in> set cols \<Longrightarrow> (i, v) \<in> set col \<Longrightarrow> i < r \<and> v \<noteq> rz"
  shows "well_formed rz (assemble r c cols)"
proof -
  let ?R = "assemble r c cols"
  have cols: "\<And>j. j < c \<Longrightarrow> sorted_wrt (<) (map fst (column ?R j))"
    using assms(1,2) by (simp add: column_assemble)
  have last: "s_columnPointer ?R ! c = length (s_values ?R)"
    using assms(1) by (simp add: assemble_def pointers_nth length_concat_map_map)
  have first: "s_columnPointer ?R ! 0 = 0"
    by (simp add: assemble_def pointers_nth)
  have rows: "list_all (\<lambda>i. i < r) (s_rowIndex ?R)"
    using assms(3) by (fastforce simp: assemble_def list_all_iff)
  have nz: "rz \<notin> set (s_values ?R)"
    using assms(3) by (fastforce simp: assemble_def)
  show ?thesis
    unfolding well_formed_def
    using cols last first rows nz assms(1)
    by (simp add: assemble_fields list_all_iff sorted_pointers)
      (simp add: assemble_def sorted_pointers)
qed

lemma column_rows:
  "(i, v) \<in> set (column S j) \<Longrightarrow> i \<in> set (s_rowIndex S)"
  by (auto simp: column_def Let_def split: if_splits dest!: set_zip_leftD in_set_takeD in_set_dropD)

lemma well_formed_rows:
  "well_formed zero S \<Longrightarrow> (i, v) \<in> set (column S j) \<Longrightarrow> i < s_rows S"
  by (auto simp: well_formed_def list_all_iff dest: column_rows)

lemma sorted_drop_zeros:
  "sorted_wrt (<) (map fst es) \<Longrightarrow> sorted_wrt (<) (map fst (drop_zeros rz es))"
  by (simp add: drop_zeros_def sorted_wrt_map sorted_wrt_filter)

lemma in_drop_zeros: "(i, v) \<in> set (drop_zeros rz es) \<longleftrightarrow> (i, v) \<in> set es \<and> v \<noteq> rz"
  by (auto simp: drop_zeros_def)

lemma well_formed_algorithm07:
  assumes "well_formed zero a" and "well_formed zero b" and "algorithm07 zero rzero a b f = Inr r"
  shows "well_formed rzero r"
proof -
  have sh: "s_rows a = s_rows b" "s_columns a = s_columns b"
    using assms(3) by (auto simp: algorithm07_def s_shape_def split: if_splits)
  let ?col = "\<lambda>j. drop_zeros rzero (merge_join f zero (column a j) (column b j))"
  have r: "r = assemble (s_rows a) (s_columns a) (map ?col [0..<s_columns a])"
    using assms(3) by (auto simp: algorithm07_def split: if_splits)
  show ?thesis
    unfolding r
  proof (rule well_formed_assemble)
    show "length (map ?col [0..<s_columns a]) = s_columns a" by simp
  next
    fix col assume "col \<in> set (map ?col [0..<s_columns a])"
    then obtain j where j: "j < s_columns a" "col = ?col j" by auto
    show "sorted_wrt (<) (map fst col)"
      unfolding j(2) using j(1) assms(1,2) sh
      by (intro sorted_drop_zeros sorted_merge_join well_formed_sorted) simp_all
  next
    fix col i v assume "col \<in> set (map ?col [0..<s_columns a])" and iv: "(i, v) \<in> set col"
    then obtain j where j: "j < s_columns a" "col = ?col j" by auto
    have "i \<in> fst ` set (merge_join f zero (column a j) (column b j))"
      using iv unfolding j(2) by (force simp: in_drop_zeros)
    then have "i \<in> fst ` set (column a j) \<union> fst ` set (column b j)"
      by (simp add: fst_merge_join)
    then have "i < s_rows a"
      using assms(1,2) sh by (auto dest: well_formed_rows)
    then show "i < s_rows a \<and> v \<noteq> rzero"
      using iv unfolding j(2) by (simp add: in_drop_zeros)
  qed
qed

lemma well_formed_algorithm12:
  assumes "well_formed zero s" and "algorithm12 zero rzero s b f inv' = Sparse r"
  shows "well_formed rzero r"
proof -
  let ?cf = "\<lambda>v. if inv' then f b v else f v b"
  let ?col = "\<lambda>j. drop_zeros rzero (map (\<lambda>(i, v). (i, ?cf v)) (column s j))"
  have r: "r = assemble (s_rows s) (s_columns s) (map ?col [0..<s_columns s])"
    using assms(2) by (auto simp: algorithm12_def Let_def split: if_splits)
  have fst: "\<And>j. map fst (map (\<lambda>(i, v). (i, ?cf v)) (column s j)) = map fst (column s j)"
    by (simp add: case_prod_unfold comp_def)
  show ?thesis
    unfolding r
  proof (rule well_formed_assemble)
    show "length (map ?col [0..<s_columns s]) = s_columns s" by simp
  next
    fix col assume "col \<in> set (map ?col [0..<s_columns s])"
    then obtain j where j: "j < s_columns s" "col = ?col j" by auto
    show "sorted_wrt (<) (map fst col)"
      unfolding j(2) using j(1) assms(1)
      by (intro sorted_drop_zeros) (simp only: fst well_formed_sorted)
  next
    fix col i v assume "col \<in> set (map ?col [0..<s_columns s])" and iv: "(i, v) \<in> set col"
    then obtain j where j: "j < s_columns s" "col = ?col j" by auto
    have "i \<in> fst ` set (column s j)"
      using iv unfolding j(2) by (force simp: in_drop_zeros)
    then have "i < s_rows s"
      using assms(1) by (auto dest: well_formed_rows)
    then show "i < s_rows s \<and> v \<noteq> rzero"
      using iv unfolding j(2) by (simp add: in_drop_zeros)
  qed
qed

lemma wf_S: "well_formed (Finite 0) example_S"
  by code_simp

lemma wf_T: "well_formed (Finite 0) example_T"
  by code_simp

lemma larger_number_zero: "larger_number ne epsilon (Finite 0) (Finite 0) = False"
  by (simp add: larger_number_def js_gt_def)


subsection \<open>The sparse path and the dense path\<close>








subsection \<open>Sparse by scalar\<close>

lemma length_column:
  "length (column S j) \<le> s_columnPointer S ! Suc j - s_columnPointer S ! j"
  by (auto simp: column_def Let_def)

lemma telescope:
  "sorted (p :: nat list) \<Longrightarrow> n < length p \<Longrightarrow> (\<Sum>j\<leftarrow>[0..<n]. p ! Suc j - p ! j) = p ! n - p ! 0"
proof (induction n)
  case 0
  then show ?case by simp
next
  case (Suc n)
  have "p ! 0 \<le> p ! n" and "p ! n \<le> p ! Suc n"
    using Suc.prems by (simp_all add: sorted_nth_mono)
  then show ?case
    using Suc by simp
qed

lemma columns_bounded:
  assumes "well_formed zero S"
  shows "(\<Sum>j\<leftarrow>[0..<s_columns S]. length (column S j)) \<le> length (s_values S)"
proof -
  let ?p = "s_columnPointer S"
  have "(\<Sum>j\<leftarrow>[0..<s_columns S]. length (column S j))
        \<le> (\<Sum>j\<leftarrow>[0..<s_columns S]. ?p ! Suc j - ?p ! j)"
    by (rule sum_list_mono) (simp add: length_column)
  also have "\<dots> = ?p ! s_columns S - ?p ! 0"
    using assms by (intro telescope) (simp_all add: well_formed_def)
  also have "\<dots> = length (s_values S)"
    using assms by (simp add: well_formed_def)
  finally show ?thesis .
qed

lemma length_drop_zeros: "length (drop_zeros rz (map g es)) \<le> length es"
  by (simp add: drop_zeros_def order_trans [OF length_filter_le])

lemma nnz_assemble: "nnz (assemble r c cols) = (\<Sum>col\<leftarrow>cols. length col)"
  by (simp add: nnz_def assemble_def length_concat comp_def)

lemma nnz_sparse_branch:
  assumes "well_formed zero S"
  shows "nnz (assemble r c (map (\<lambda>j. drop_zeros rz (map g (column S j))) [0..<s_columns S]))
         \<le> nnz S"
proof -
  have "(\<Sum>j\<leftarrow>[0..<s_columns S]. length (drop_zeros rz (map g (column S j))))
        \<le> (\<Sum>j\<leftarrow>[0..<s_columns S]. length (column S j))"
    by (rule sum_list_mono) (simp add: length_drop_zeros)
  with columns_bounded [OF assms] show ?thesis
    unfolding nnz_assemble by (simp add: comp_def nnz_def)
qed

text \<open>
  C2. For a well-formed sparse matrix S and a scalar b: when the operator on the canonical
  zero and b, in the order of the flag, is the canonical zero of the result kind, the
  sparse-by-scalar combinator returns a sparse matrix of the same shape, well formed and
  with at most \<open>nnz S\<close> entries; otherwise it returns a dense matrix of the same shape.
\<close>

theorem sparsity_law:
  assumes "well_formed zero S"
  shows "((if inv' then f b zero else f zero b) = rzero \<longrightarrow>
            (\<exists>R. algorithm12 zero rzero S b f inv' = Sparse R
                 \<and> s_shape R = s_shape S \<and> nnz R \<le> nnz S \<and> well_formed rzero R))
       \<and> ((if inv' then f b zero else f zero b) \<noteq> rzero \<longrightarrow>
            (\<exists>D. algorithm12 zero rzero S b f inv' = Dense D \<and> d_shape D = s_shape S))"
proof (cases "(if inv' then f b zero else f zero b) = rzero")
  case True
  then obtain R where R: "algorithm12 zero rzero S b f inv' = Sparse R"
    by (simp add: algorithm12_def Let_def)
  have "s_shape R = s_shape S" and "nnz R \<le> nnz S"
    using R True nnz_sparse_branch [OF assms]
    by (auto simp: algorithm12_def Let_def s_shape_def assemble_fields split: if_splits)
  moreover have "well_formed rzero R"
    using assms R by (rule well_formed_algorithm12)
  ultimately show ?thesis
    using True R by simp
next
  case False
  then show ?thesis
    by (simp add: algorithm12_def Let_def)
qed

theorem sparsity_law_witness:
  "well_formed (Finite 0) example_S
   \<and> larger_number nearlyEqual epsilon_1e9 (Finite 0) (Finite 0) = False
   \<and> (\<exists>R. algorithm12 (Finite 0) False example_S (Finite 0)
              (larger_number nearlyEqual epsilon_1e9) False = Sparse R
          \<and> s_shape R = s_shape example_S \<and> nnz R \<le> nnz example_S \<and> well_formed False R)
   \<and> larger_number nearlyEqual epsilon_1e9 (Finite 0) (Finite (- 1)) \<noteq> False
   \<and> (\<exists>D. algorithm12 (Finite 0) False example_S (Finite (- 1))
              (larger_number nearlyEqual epsilon_1e9) False = Dense D
          \<and> d_shape D = s_shape example_S)
   \<and> algorithm12 (Finite 0) False example_S (Finite 0)
        (larger_number nearlyEqual epsilon_1e9) False
      = Sparse \<lparr>s_rows = 2, s_columns = 2, s_values = [True], s_rowIndex = [1],
                s_columnPointer = [0, 0, 1]\<rparr>
   \<and> algorithm12 (Finite 0) False example_S (Finite (- 1))
        (larger_number nearlyEqual epsilon_1e9) False
      = Dense \<lparr>d_shape = [2, 2],
               d_data = Arr [Arr [Leaf True, Leaf True], Arr [Leaf True, Leaf True]]\<rparr>"
proof -
  have t: "larger_number nearlyEqual epsilon_1e9 (Finite 0) (Finite (- 1)) \<noteq> False"
    by code_simp
  have r0: "algorithm12 (Finite 0) False example_S (Finite 0)
        (larger_number nearlyEqual epsilon_1e9) False
      = Sparse \<lparr>s_rows = 2, s_columns = 2, s_values = [True], s_rowIndex = [1],
                s_columnPointer = [0, 0, 1]\<rparr>"
    by code_simp
  have r1: "algorithm12 (Finite 0) False example_S (Finite (- 1))
        (larger_number nearlyEqual epsilon_1e9) False
      = Dense \<lparr>d_shape = [2, 2],
               d_data = Arr [Arr [Leaf True, Leaf True], Arr [Leaf True, Leaf True]]\<rparr>"
    by code_simp
  have z: "larger_number nearlyEqual epsilon_1e9 (Finite 0) (Finite 0) = False"
    by (rule larger_number_zero)
  have a: "\<exists>R. algorithm12 (Finite 0) False example_S (Finite 0)
              (larger_number nearlyEqual epsilon_1e9) False = Sparse R
          \<and> s_shape R = s_shape example_S \<and> nnz R \<le> nnz example_S \<and> well_formed False R"
    using sparsity_law [OF wf_S, where f = "larger_number nearlyEqual epsilon_1e9"
        and rzero = False and b = "Finite 0" and inv' = False] z
    by simp
  have b: "\<exists>D. algorithm12 (Finite 0) False example_S (Finite (- 1))
              (larger_number nearlyEqual epsilon_1e9) False = Dense D
          \<and> d_shape D = s_shape example_S"
    using sparsity_law [OF wf_S, where f = "larger_number nearlyEqual epsilon_1e9"
        and rzero = False and b = "Finite (- 1)" and inv' = False] t
    by simp
  show ?thesis
    using wf_S z a t b r0 r1 by (intro conjI)
qed

subsection \<open>The signatures on matrices and arrays\<close>

lemma signatures_sparse_sparse:
  assumes "s_shape x = s_shape y"
  shows "\<exists>r. signatures f zero rzero (Sparse x) (Sparse y) = Inr (Sparse r)
           \<and> s_shape r = s_shape x
           \<and> length (s_columnPointer r) = s_columns x + 1
           \<and> length (s_rowIndex r) = length (s_values r)
           \<and> (well_formed zero x \<and> well_formed zero y \<longrightarrow> well_formed rzero r)"
proof -
  obtain r where r: "algorithm07 zero rzero x y f = Inr r"
    using assms by (simp add: algorithm07_def)
  have "s_shape r = s_shape x" "length (s_columnPointer r) = s_columns x + 1"
    "length (s_rowIndex r) = length (s_values r)"
    using r assms by (auto simp: algorithm07_def s_shape_def assemble_fields)
  moreover have "well_formed zero x \<and> well_formed zero y \<longrightarrow> well_formed rzero r"
    using r by (blast intro: well_formed_algorithm07)
  ultimately show ?thesis
    using r by simp
qed

text \<open>
  C3. For two sparse operands of one shape, \<open>larger\<close> and \<open>smaller\<close> return a sparse
  matrix of that shape, with a column pointer of \<open>columns + 1\<close> positions and as many row
  indices as values; it is well formed when the operands are.
\<close>

theorem sparse_by_sparse_is_sparse:
  assumes "s_shape x = s_shape y"
  shows "(\<exists>r. larger ne epsilon (Sparse x) (Sparse y) = Inr (Sparse r)
           \<and> s_shape r = s_shape x
           \<and> length (s_columnPointer r) = s_columns x + 1
           \<and> length (s_rowIndex r) = length (s_values r)
           \<and> (well_formed (Finite 0) x \<and> well_formed (Finite 0) y \<longrightarrow> well_formed False r))
       \<and> (\<exists>r. smaller ne epsilon (Sparse x) (Sparse y) = Inr (Sparse r)
           \<and> s_shape r = s_shape x
           \<and> length (s_columnPointer r) = s_columns x + 1
           \<and> length (s_rowIndex r) = length (s_values r)
           \<and> (well_formed (Finite 0) x \<and> well_formed (Finite 0) y \<longrightarrow> well_formed False r))"
  unfolding larger_def smaller_def
  by (intro conjI signatures_sparse_sparse [OF assms])

theorem sparse_by_sparse_is_sparse_witness:
  "s_shape example_S = s_shape example_T
   \<and> well_formed (Finite 0) example_S \<and> well_formed (Finite 0) example_T
   \<and> larger nearlyEqual epsilon_1e9 (Sparse example_S) (Sparse example_T)
       = Inr (Sparse \<lparr>s_rows = 2, s_columns = 2, s_values = [True, True],
                       s_rowIndex = [0, 1], s_columnPointer = [0, 1, 2]\<rparr>)
   \<and> well_formed False \<lparr>s_rows = 2, s_columns = 2, s_values = [True, True],
                       s_rowIndex = [0, 1], s_columnPointer = [0, 1, 2]\<rparr>
   \<and> (\<exists>r. smaller nearlyEqual epsilon_1e9 (Sparse example_S) (Sparse example_T)
             = Inr (Sparse r) \<and> s_shape r = s_shape example_S \<and> well_formed False r)"
proof -
  have sh: "s_shape example_S = s_shape example_T"
    by (simp add: s_shape_def example_S_def example_T_def)
  have r: "larger nearlyEqual epsilon_1e9 (Sparse example_S) (Sparse example_T)
       = Inr (Sparse \<lparr>s_rows = 2, s_columns = 2, s_values = [True, True],
                       s_rowIndex = [0, 1], s_columnPointer = [0, 1, 2]\<rparr>)"
    by code_simp
  show ?thesis
    using sparse_by_sparse_is_sparse [OF sh, of nearlyEqual epsilon_1e9] sh r wf_S wf_T
    by auto
qed

lemma raises_map_sum [simp]:
  "raises_DimensionMismatch (map_sum id g r) = raises_DimensionMismatch r"
  by (cases r) (simp_all add: raises_DimensionMismatch_def)

lemma signatures_dimension:
  "raises_DimensionMismatch (signatures f zero rzero (Dense a) (Dense b)) = (d_shape a \<noteq> d_shape b)"
  "raises_DimensionMismatch (signatures f zero rzero (Sparse s) (Sparse t)) = (s_shape s \<noteq> s_shape t)"
  "raises_DimensionMismatch (signatures f zero rzero (Sparse s) (Dense a)) = (s_shape s \<noteq> d_shape a)"
  "raises_DimensionMismatch (signatures f zero rzero (Dense a) (Sparse s)) = (d_shape a \<noteq> s_shape s)"
  by (auto simp: raises_DimensionMismatch_def algorithm13_def algorithm07_def algorithm03_def)

text \<open>
  C6. For the combinators that \<open>larger\<close> and \<open>smaller\<close> invoke on two matrices (dense by
  dense, sparse by sparse, sparse by dense and dense by sparse), a DimensionMismatch is
  raised exactly when the shapes of the operands differ.
\<close>

theorem dimension_mismatch_iff_shapes_differ:
  "raises_DimensionMismatch (larger ne epsilon (Dense a) (Dense b)) = (d_shape a \<noteq> d_shape b)
   \<and> raises_DimensionMismatch (larger ne epsilon (Sparse s) (Sparse t)) = (s_shape s \<noteq> s_shape t)
   \<and> raises_DimensionMismatch (larger ne epsilon (Sparse s) (Dense a)) = (s_shape s \<noteq> d_shape a)
   \<and> raises_DimensionMismatch (larger ne epsilon (Dense a) (Sparse s)) = (d_shape a \<noteq> s_shape s)
   \<and> raises_DimensionMismatch (smaller ne epsilon (Dense a) (Dense b)) = (d_shape a \<noteq> d_shape b)
   \<and> raises_DimensionMismatch (smaller ne epsilon (Sparse s) (Sparse t)) = (s_shape s \<noteq> s_shape t)
   \<and> raises_DimensionMismatch (smaller ne epsilon (Sparse s) (Dense a)) = (s_shape s \<noteq> d_shape a)
   \<and> raises_DimensionMismatch (smaller ne epsilon (Dense a) (Sparse s)) = (d_shape a \<noteq> s_shape s)"
  unfolding larger_def smaller_def by (simp only: signatures_dimension simp_thms)


theorem dimension_mismatch_iff_shapes_differ_witness:
  "s_shape example_W \<noteq> s_shape example_S
   \<and> raises_DimensionMismatch (larger nearlyEqual epsilon_1e9 (Sparse example_W) (Sparse example_S))
   \<and> raises_DimensionMismatch (larger nearlyEqual epsilon_1e9
         (Dense (toDense (Finite 0) example_S)) (Dense (toDense (Finite 0) example_W)))
   \<and> raises_DimensionMismatch (larger nearlyEqual epsilon_1e9
         (Sparse example_W) (Dense (toDense (Finite 0) example_S)))
   \<and> raises_DimensionMismatch (larger nearlyEqual epsilon_1e9
         (Dense (toDense (Finite 0) example_S)) (Sparse example_W))
   \<and> \<not> raises_DimensionMismatch (smaller nearlyEqual epsilon_1e9 (Sparse example_S) (Sparse example_T))"
proof -
  have sh: "s_shape example_W \<noteq> s_shape example_S" "s_shape example_S = s_shape example_T"
    by (simp_all add: s_shape_def example_S_def example_W_def example_T_def)
  have d: "d_shape (toDense (Finite 0) example_S) = s_shape example_S"
    "d_shape (toDense (Finite 0) example_W) = s_shape example_W"
    by (simp_all add: toDense_def)
  have "s_shape example_S \<noteq> s_shape example_W"
    using sh(1) by simp
  then show ?thesis
    using sh d
      dimension_mismatch_iff_shapes_differ [of nearlyEqual epsilon_1e9
        "toDense (Finite 0) example_S" "toDense (Finite 0) example_W" example_W example_S]
      dimension_mismatch_iff_shapes_differ [of nearlyEqual epsilon_1e9
        "toDense (Finite 0) example_S" "toDense (Finite 0) example_W" example_S example_T]
    by simp
qed

lemma values_assemble_drop_zeros:
  "rz \<notin> set (s_values (assemble r c (map (\<lambda>j. drop_zeros rz (g j)) js)))"
  by (auto simp: assemble_def drop_zeros_def)

lemma algorithm07_no_zero:
  "algorithm07 zero rzero a b f = Inr r \<Longrightarrow> rzero \<notin> set (s_values r)"
  by (auto simp: algorithm07_def values_assemble_drop_zeros split: if_splits)

lemma algorithm12_no_zero:
  "algorithm12 zero rzero s b f inv' = Sparse r \<Longrightarrow> rzero \<notin> set (s_values r)"
  by (auto simp: algorithm12_def Let_def values_assemble_drop_zeros split: if_splits)

lemma valueOf_not_Sparse: "valueOf z v \<noteq> Sparse r"
  by (cases v) simp_all

lemma signatures_no_zero:
  "signatures f zero rzero x y = Inr (Sparse r) \<Longrightarrow> rzero \<notin> set (s_values r)"
proof (induction f zero rzero x y rule: signatures.induct)
  case (2 f zero rzero x y)
  then show ?case
    by (cases "algorithm07 zero rzero x y f") (auto dest: algorithm07_no_zero)
next
  case (3 f zero rzero x y)
  then show ?case by (cases "algorithm03 zero y x f True") auto
next
  case (4 f zero rzero x y)
  then show ?case by (cases "algorithm03 zero x y f False") auto
next
  case (5 f zero rzero x y)
  then show ?case by (cases "algorithm13 x y f") auto
next
  case (6 f zero rzero x y)
  then show ?case
    by (cases "signatures f zero rzero (Dense (matrix x)) (Dense (matrix y))")
      (auto simp: valueOf_not_Sparse)
qed (auto dest: algorithm12_no_zero simp: valueOf_not_Sparse)

text \<open>
  C7. Whenever \<open>larger\<close> or \<open>smaller\<close> returns a sparse matrix, for any operands, its values
  hold no \<open>false\<close>, the canonical zero of the boolean results.
\<close>

theorem no_explicit_zero_in_sparse_result:
  "(larger ne epsilon x y = Inr (Sparse r) \<longrightarrow> False \<notin> set (s_values r))
   \<and> (smaller ne epsilon x y = Inr (Sparse r) \<longrightarrow> False \<notin> set (s_values r))"
  unfolding larger_def smaller_def
  by (blast dest: signatures_no_zero)

theorem no_explicit_zero_in_sparse_result_witness:
  "larger nearlyEqual epsilon_1e9 (Sparse example_S) (Scalar (Finite 0))
     = Inr (Sparse \<lparr>s_rows = 2, s_columns = 2, s_values = [True], s_rowIndex = [1],
                     s_columnPointer = [0, 0, 1]\<rparr>)
   \<and> False \<notin> set (s_values \<lparr>s_rows = 2, s_columns = 2, s_values = [True], s_rowIndex = [1],
                     s_columnPointer = [0, 0, 1]\<rparr>)
   \<and> smaller nearlyEqual epsilon_1e9 (Sparse example_S) (Sparse example_T)
     = Inr (Sparse \<lparr>s_rows = 2, s_columns = 2, s_values = [True], s_rowIndex = [1],
                     s_columnPointer = [0, 1, 1]\<rparr>)
   \<and> False \<notin> set (s_values \<lparr>s_rows = 2, s_columns = 2, s_values = [True], s_rowIndex = [1],
                     s_columnPointer = [0, 1, 1]\<rparr>)"
proof -
  have l: "larger nearlyEqual epsilon_1e9 (Sparse example_S) (Scalar (Finite 0))
     = Inr (Sparse \<lparr>s_rows = 2, s_columns = 2, s_values = [True], s_rowIndex = [1],
                     s_columnPointer = [0, 0, 1]\<rparr>)"
    by code_simp
  have s: "smaller nearlyEqual epsilon_1e9 (Sparse example_S) (Sparse example_T)
     = Inr (Sparse \<lparr>s_rows = 2, s_columns = 2, s_values = [True], s_rowIndex = [1],
                     s_columnPointer = [0, 1, 1]\<rparr>)"
    by code_simp
  show ?thesis
    using l s
      no_explicit_zero_in_sparse_result [of nearlyEqual epsilon_1e9 "Sparse example_S"
        "Scalar (Finite 0)" "\<lparr>s_rows = 2, s_columns = 2, s_values = [True], s_rowIndex = [1],
                     s_columnPointer = [0, 0, 1]\<rparr>"]
      no_explicit_zero_in_sparse_result [of nearlyEqual epsilon_1e9 "Sparse example_S"
        "Sparse example_T" "\<lparr>s_rows = 2, s_columns = 2, s_values = [True], s_rowIndex = [1],
                     s_columnPointer = [0, 1, 1]\<rparr>"]
    by blast
qed

lemma signatures_array_array:
  "signatures f zero rzero (Array x) (Array y)
     = map_sum id (valueOf rzero) (signatures f zero rzero (Dense (matrix x)) (Dense (matrix y)))"
  by simp

lemma conforms_elementwise:
  "conforms ns a \<Longrightarrow> conforms ns b \<Longrightarrow> conforms ns (elementwise f a b)"
  "conforms_list ns as \<Longrightarrow> conforms_list ns bs \<Longrightarrow> length as = length bs
   \<Longrightarrow> conforms_list ns (elementwise_list f as bs)
       \<and> length (elementwise_list f as bs) = length as"
proof (induction f a b and f as bs arbitrary: ns and ns
    rule: elementwise_elementwise_list.induct)
  case (2 f xs ys)
  then show ?case by (cases ns) auto
qed auto

lemma signatures_arrays_equal_shape:
  assumes "conforms (arraySize x) x \<and> conforms (arraySize y) y \<and> arraySize x = arraySize y"
  shows "\<exists>d. signatures f zero rzero (Dense (matrix x)) (Dense (matrix y)) = Inr (Dense d)
            \<and> signatures f zero rzero (Array x) (Array y) = Inr (Array (d_data d))
            \<and> d_shape d = arraySize x \<and> conforms (d_shape d) (d_data d)"
proof -
  have cx: "conforms (arraySize x) x" and cy: "conforms (arraySize x) y"
    and sh: "arraySize x = arraySize y"
    using assms by auto
  have "conforms (arraySize x) (elementwise f x y)"
    using cx cy by (rule conforms_elementwise(1))
  then show ?thesis
    using sh by (simp add: algorithm13_def matrix_def)
qed

text \<open>
  C8. On two plain arrays \<open>larger\<close> and \<open>smaller\<close> are the matrix rule on \<open>matrix x\<close> and
  \<open>matrix y\<close>, converted back by \<open>valueOf\<close>; for two arrays of one shape the matrix rule
  returns a dense matrix of that shape and the result is its data, a plain array.
\<close>

theorem array_operands_as_dense:
  "larger ne epsilon (Array x) (Array y)
     = map_sum id (valueOf False) (larger ne epsilon (Dense (matrix x)) (Dense (matrix y)))
   \<and> smaller ne epsilon (Array x) (Array y)
     = map_sum id (valueOf False) (smaller ne epsilon (Dense (matrix x)) (Dense (matrix y)))
   \<and> (conforms (arraySize x) x \<and> conforms (arraySize y) y \<and> arraySize x = arraySize y \<longrightarrow>
        (\<exists>d. larger ne epsilon (Dense (matrix x)) (Dense (matrix y)) = Inr (Dense d)
            \<and> larger ne epsilon (Array x) (Array y) = Inr (Array (d_data d))
            \<and> d_shape d = arraySize x \<and> conforms (d_shape d) (d_data d))
      \<and> (\<exists>d. smaller ne epsilon (Dense (matrix x)) (Dense (matrix y)) = Inr (Dense d)
            \<and> smaller ne epsilon (Array x) (Array y) = Inr (Array (d_data d))
            \<and> d_shape d = arraySize x \<and> conforms (d_shape d) (d_data d)))"
proof -
  have "larger ne epsilon (Array x) (Array y)
     = map_sum id (valueOf False) (larger ne epsilon (Dense (matrix x)) (Dense (matrix y)))"
    and "smaller ne epsilon (Array x) (Array y)
     = map_sum id (valueOf False) (smaller ne epsilon (Dense (matrix x)) (Dense (matrix y)))"
    unfolding larger_def smaller_def by (rule signatures_array_array)+
  moreover have "\<exists>d. larger ne epsilon (Dense (matrix x)) (Dense (matrix y)) = Inr (Dense d)
            \<and> larger ne epsilon (Array x) (Array y) = Inr (Array (d_data d))
            \<and> d_shape d = arraySize x \<and> conforms (d_shape d) (d_data d)"
    and "\<exists>d. smaller ne epsilon (Dense (matrix x)) (Dense (matrix y)) = Inr (Dense d)
            \<and> smaller ne epsilon (Array x) (Array y) = Inr (Array (d_data d))
            \<and> d_shape d = arraySize x \<and> conforms (d_shape d) (d_data d)"
    if "conforms (arraySize x) x \<and> conforms (arraySize y) y \<and> arraySize x = arraySize y"
    unfolding larger_def smaller_def using that by (rule signatures_arrays_equal_shape)+
  ultimately show ?thesis by blast
qed

theorem array_operands_as_dense_witness:
  "conforms (arraySize (Arr [Leaf (Finite 2), Leaf (Finite 5)]))
      (Arr [Leaf (Finite 2), Leaf (Finite 5)])
   \<and> conforms (arraySize (Arr [Leaf (Finite 3), Leaf (Finite 4)]))
      (Arr [Leaf (Finite 3), Leaf (Finite 4)])
   \<and> arraySize (Arr [Leaf (Finite 2), Leaf (Finite 5)])
      = arraySize (Arr [Leaf (Finite 3), Leaf (Finite 4)])
   \<and> larger nearlyEqual epsilon_1e9 (Array (Arr [Leaf (Finite 2), Leaf (Finite 5)]))
        (Array (Arr [Leaf (Finite 3), Leaf (Finite 4)]))
      = Inr (Array (Arr [Leaf False, Leaf True]))
   \<and> larger nearlyEqual epsilon_1e9 (Dense (matrix (Arr [Leaf (Finite 2), Leaf (Finite 5)])))
        (Dense (matrix (Arr [Leaf (Finite 3), Leaf (Finite 4)])))
      = Inr (Dense \<lparr>d_shape = [2], d_data = Arr [Leaf False, Leaf True]\<rparr>)"
proof -
  have c: "conforms (arraySize (Arr [Leaf (Finite 2), Leaf (Finite 5)]))
      (Arr [Leaf (Finite 2), Leaf (Finite 5)])"
    "conforms (arraySize (Arr [Leaf (Finite 3), Leaf (Finite 4)]))
      (Arr [Leaf (Finite 3), Leaf (Finite 4)])"
    by simp_all
  have sh: "arraySize (Arr [Leaf (Finite 2), Leaf (Finite 5)])
            = arraySize (Arr [Leaf (Finite 3), Leaf (Finite 4)])"
    by simp
  have r: "larger nearlyEqual epsilon_1e9 (Dense (matrix (Arr [Leaf (Finite 2), Leaf (Finite 5)])))
        (Dense (matrix (Arr [Leaf (Finite 3), Leaf (Finite 4)])))
      = Inr (Dense \<lparr>d_shape = [2], d_data = Arr [Leaf False, Leaf True]\<rparr>)"
    by code_simp
  have "larger nearlyEqual epsilon_1e9 (Array (Arr [Leaf (Finite 2), Leaf (Finite 5)]))
        (Array (Arr [Leaf (Finite 3), Leaf (Finite 4)]))
      = Inr (Array (Arr [Leaf False, Leaf True]))"
    using c sh r array_operands_as_dense [of nearlyEqual epsilon_1e9
        "Arr [Leaf (Finite 2), Leaf (Finite 5)]" "Arr [Leaf (Finite 3), Leaf (Finite 4)]"]
    by simp
  with c sh r show ?thesis by (intro conjI)
qed

text \<open>
  C5, as amended. \<open>larger\<close> on the dense operands \<open>[2, 3]\<close> and \<open>[5, 4]\<close> is
  \<open>[false, false]\<close>, for every near-equality test: neither 2 nor 3 is greater than its
  counterpart. The result \<open>[false, true]\<close> is that of the operands \<open>[2, 5]\<close> and \<open>[3, 4]\<close>
  (the two examples \<open>larger(2, 3)\<close> and \<open>larger(5, 2 + 2)\<close> of the documentation).
\<close>

theorem larger_on_vectors:
  "larger ne epsilon (Dense (vector [Finite 2, Finite 3])) (Dense (vector [Finite 5, Finite 4]))
     = Inr (Dense (vector [False, False]))
   \<and> larger nearlyEqual epsilon_1e9 (Dense (vector [Finite 2, Finite 5]))
        (Dense (vector [Finite 3, Finite 4]))
     = Inr (Dense (vector [False, True]))"
  by (simp add: larger_def vector_def algorithm13_def larger_number_def js_gt_def
      nearlyEqual_def epsilon_1e9_def)

theorem larger_on_vectors_counterexample:
  "larger nearlyEqual epsilon_1e9 (Dense (vector [Finite 2, Finite 3]))
      (Dense (vector [Finite 5, Finite 4]))
   \<noteq> Inr (Dense (vector [False, True]))"
  by code_simp

end
